theory Spec2Isabelle
  imports Main "HOL-Library.Sublist"
begin

section \<open>JavaScript values, objects and errors\<close>

text \<open>
  The program is \<^verbatim>\<open>packages/docutils/lib/init.ts\<close>.  A JavaScript value is a
  primitive or a reference to an object (a plain object or an array) in the store.  The
  property bag of an object is a map from property names to values; reading a missing
  property gives \<^verbatim>\<open>undefined\<close>.  Numbers are modelled by integers: no statement below
  depends on a number other than through its truthiness.
\<close>

type_synonym addr = nat

datatype jsval =
    JUndefined
  | JNull
  | JBool bool
  | JNum int
  | JStr string
  | JRef addr

type_synonym props = "string \<rightharpoonup> jsval"

text \<open>\<^verbatim>\<open>!!v\<close>: the falsy values are undefined, null, false, 0 and the empty string.\<close>

fun truthy :: "jsval \<Rightarrow> bool" where
  "truthy JUndefined = False"
| "truthy JNull = False"
| "truthy (JBool b) = b"
| "truthy (JNum n) = (n \<noteq> 0)"
| "truthy (JStr s) = (s \<noteq> [])"
| "truthy (JRef a) = True"

text \<open>\<^verbatim>\<open>a ?? b\<close>: the right operand is taken only when the left one is undefined or null.\<close>

fun nullish :: "jsval \<Rightarrow> bool" where
  "nullish JUndefined = True"
| "nullish JNull = True"
| "nullish v = False"

definition coalesce :: "jsval \<Rightarrow> jsval \<Rightarrow> jsval" where
  "coalesce a b = (if nullish a then b else a)"

text \<open>\<^verbatim>\<open>obj.key\<close> on a property bag.\<close>

definition get_prop :: "props \<Rightarrow> string \<Rightarrow> jsval" where
  "get_prop obj k = (case obj k of None \<Rightarrow> JUndefined | Some v \<Rightarrow> v)"

text \<open>An optional field of type \<^verbatim>\<open>string | undefined\<close>, read as a value.\<close>

definition of_optional :: "string option \<Rightarrow> jsval" where
  "of_optional s = (case s of None \<Rightarrow> JUndefined | Some x \<Rightarrow> JStr x)"

text \<open>
  What the program can throw: a \<^verbatim>\<open>TypeError\<close> of the platform, the package's own
  \<^verbatim>\<open>DocutilsError\<close>, or any other \<^verbatim>\<open>Error\<close> raised by a collaborator.  Each
  carries its \<^verbatim>\<open>message\<close>.
\<close>

datatype error =
    TypeError string
  | DocutilsError string
  | OtherError string

fun message :: "error \<Rightarrow> string" where
  "message (TypeError m) = m"
| "message (DocutilsError m) = m"
| "message (OtherError m) = m"

section \<open>Logging\<close>

text \<open>
  \<^verbatim>\<open>log = logger.withTag('init')\<close> and \<^verbatim>\<open>dryRunLog = logger.withTag('dry-run')\<close>.
  A log call is recorded with its tag, its level, its format string and the arguments that
  fill the format's \<^verbatim>\<open>%s\<close> places.
\<close>

datatype log_level = Debug | Info | Warn | Success

datatype log_line = LogLine string log_level string "string list"

definition log_info :: "string \<Rightarrow> string list \<Rightarrow> log_line" where
  "log_info fmt args = LogLine ''init'' Info fmt args"

text \<open>
  The logger's printf-style formatting: each \<^verbatim>\<open>%s\<close> is replaced by the next argument;
  a \<^verbatim>\<open>%s\<close> with no argument left stays as it is, and arguments left over are appended,
  separated by spaces.
\<close>

fun format_message :: "string \<Rightarrow> string list \<Rightarrow> string" where
  "format_message [] args = concat (map (\<lambda>a. CHR '' '' # a) args)"
| "format_message [c] args = c # concat (map (\<lambda>a. CHR '' '' # a) args)"
| "format_message (c # d # rest) args =
     (if c = CHR ''%'' \<and> d = CHR ''s'' \<and> args \<noteq> []
      then hd args @ format_message rest (tl args)
      else c # format_message (d # rest) args)"

definition render :: "log_line \<Rightarrow> string" where
  "render l = (case l of LogLine t lv fmt args \<Rightarrow> format_message fmt args)"

section \<open>String operations of the platform\<close>

text \<open>\<^verbatim>\<open>s.split(c)\<close> for a one-character separator: never an empty array.\<close>

fun split :: "char \<Rightarrow> string \<Rightarrow> string list" where
  "split c [] = [[]]"
| "split c (x # xs) =
     (if x = c then [] # split c xs
      else (case split c xs of
              [] \<Rightarrow> [[x]]
            | w # ws \<Rightarrow> (x # w) # ws))"

text \<open>
  \<^verbatim>\<open>xs.join(sep)\<close>: an element that is undefined contributes the empty string.
\<close>

fun join :: "string \<Rightarrow> string option list \<Rightarrow> string" where
  "join sep [] = []"
| "join sep [x] = (case x of None \<Rightarrow> [] | Some s \<Rightarrow> s)"
| "join sep (x # y # ys) = (case x of None \<Rightarrow> [] | Some s \<Rightarrow> s) @ sep @ join sep (y # ys)"

text \<open>\<^verbatim>\<open>xs[i]\<close> of array destructuring: undefined past the end.\<close>

fun element :: "'a list \<Rightarrow> nat \<Rightarrow> 'a option" where
  "element [] i = None"
| "element (x # xs) 0 = Some x"
| "element (x # xs) (Suc i) = element xs i"

text \<open>\<^verbatim>\<open>repo.replace(/\.git$/, '')\<close>: a final \<^verbatim>\<open>.git\<close> is removed, once.\<close>

definition strip_git_suffix :: "string \<Rightarrow> string" where
  "strip_git_suffix s = (if suffix ''.git'' s then take (length s - 4) s else s)"

section \<open>Options and project metadata\<close>

text \<open>
  \<^verbatim>\<open>ScaffoldTaskOptions\<close> is declared in \<^verbatim>\<open>init-task.ts\<close>; its fields are the ones
  the \<^verbatim>\<open>init\<close> function passes.  Every field is optional.
\<close>

record scaffold_task_options =
  dest :: "string option"
  packageJson :: "string option"
  overwrite :: "bool option"
  dryRun :: "bool option"
  cwd :: "string option"

record init_mkdocs_options = scaffold_task_options +
  copyright :: "string option"
  repoName :: "string option"
  repoUrl :: "string option"
  siteDescription :: "string option"
  siteName :: "string option"

record init_tsconfig_options = scaffold_task_options +
  include' :: "string list option"

record init_python_options = scaffold_task_options +
  pythonPath :: "string option"

text \<open>
  The fields of \<^verbatim>\<open>package.json\<close> the program reads.  \<^verbatim>\<open>repository\<close> is either the
  shorthand string or an object with \<^verbatim>\<open>type\<close>, \<^verbatim>\<open>url\<close> and an optional
  \<^verbatim>\<open>directory\<close>.
\<close>

datatype repository =
    RepoString string
  | RepoObject string string "string option"

record package_json =
  name :: "string option"
  description :: "string option"
  repository :: "repository option"

text \<open>\<^verbatim>\<open>pkg.repository?.url\<close>: a string has no \<^verbatim>\<open>url\<close> property.\<close>

definition repository_url :: "package_json \<Rightarrow> string option" where
  "repository_url pkg =
     (case repository pkg of
        None \<Rightarrow> None
      | Some (RepoString s) \<Rightarrow> None
      | Some (RepoObject t u d) \<Rightarrow> Some u)"

section \<open>The transform of \<^verbatim>\<open>initMkDocs\<close>\<close>

text \<open>
  Lines 88 to 94: \<^verbatim>\<open>siteName\<close>.
\<close>

definition resolve_site_name ::
  "props \<Rightarrow> init_mkdocs_options \<Rightarrow> package_json \<Rightarrow> jsval \<times> log_line list" where
  "resolve_site_name content opts pkg =
     (let v = coalesce (of_optional (siteName opts)) (get_prop content ''site_name'') in
      if \<not> truthy v then
        (let s = (case name pkg of None \<Rightarrow> ''(no name)'' | Some n \<Rightarrow> n) in
         (JStr s,
          if s \<noteq> [] then [log_info ''Using site name from package.json: %s'' [s]] else []))
      else (v, []))"

text \<open>
  Lines 95 to 101: \<^verbatim>\<open>repoUrl\<close>.
\<close>

definition resolve_repo_url ::
  "props \<Rightarrow> init_mkdocs_options \<Rightarrow> package_json \<Rightarrow> jsval \<times> log_line list" where
  "resolve_repo_url content opts pkg =
     (let v = coalesce (of_optional (repoUrl opts)) (get_prop content ''repo_url'') in
      if \<not> truthy v then
        (case repository_url pkg of
           None \<Rightarrow> (JUndefined, [])
         | Some u \<Rightarrow>
             (JStr u,
              if u \<noteq> [] then [log_info ''Using repo URL from package.json: %s'' [u]] else []))
      else (v, []))"

text \<open>
  Lines 104 to 108: the name derived from the path of a URL.  The first parameter stands
  for \<^verbatim>\<open>new URL(x).pathname\<close> of the platform: \<open>None\<close> when the constructor throws.
  The destructuring \<^verbatim>\<open>[owner, repo]\<close> leaves \<^verbatim>\<open>repo\<close> undefined when the path has a
  single segment, and \<^verbatim>\<open>repo.replace\<close> then throws.
\<close>

definition derive_repo_name :: "(jsval \<Rightarrow> string option) \<Rightarrow> jsval \<Rightarrow> error + string" where
  "derive_repo_name pathname_of url =
     (case pathname_of url of
        None \<Rightarrow> Inl (TypeError ''Invalid URL'')
      | Some pathname \<Rightarrow>
          (let pathname = drop 1 pathname;
               parts = split CHR ''/'' pathname;
               owner = element parts 0;
               repo = element parts 1
           in case repo of
                None \<Rightarrow>
                  Inl (TypeError ''Cannot read properties of undefined (reading 'replace')'')
              | Some r \<Rightarrow> Inr (join ''/'' [owner, Some (strip_git_suffix r)])))"

text \<open>
  Lines 102 to 112: \<^verbatim>\<open>repoName\<close>, from the resolved \<^verbatim>\<open>repoUrl\<close>.
\<close>

definition resolve_repo_name ::
  "(jsval \<Rightarrow> string option) \<Rightarrow> props \<Rightarrow> init_mkdocs_options \<Rightarrow> jsval
     \<Rightarrow> error + jsval \<times> log_line list" where
  "resolve_repo_name pathname_of content opts repo_url =
     (let v = coalesce (of_optional (repoName opts)) (get_prop content ''repo_name'') in
      if truthy repo_url \<and> \<not> truthy v then
        (case derive_repo_name pathname_of repo_url of
           Inl e \<Rightarrow> Inl e
         | Inr n \<Rightarrow>
             Inr (JStr n,
                  if n \<noteq> [] then [log_info ''Using repo name from package.json: %s'' [n]]
                  else []))
      else Inr (v, []))"

text \<open>
  Lines 113 to 119: \<^verbatim>\<open>siteDescription\<close>.
\<close>

definition resolve_site_description ::
  "props \<Rightarrow> init_mkdocs_options \<Rightarrow> package_json \<Rightarrow> jsval \<times> log_line list" where
  "resolve_site_description content opts pkg =
     (let v = coalesce (of_optional (siteDescription opts))
                (get_prop content ''site_description'') in
      if \<not> truthy v then
        (case description pkg of
           None \<Rightarrow> (JUndefined, [])
         | Some d \<Rightarrow>
             (JStr d,
              if d \<noteq> []
              then [log_info ''Using site description URL from package.json: %s'' [d]]
              else []))
      else (v, []))"

text \<open>
  Lines 87 to 127.  The result is the log lines written, in order, and either the error
  thrown or the properties of the object returned: those of \<^verbatim>\<open>content\<close>, then the four
  keys.  A log line written before a throw stays written.
\<close>

definition transform ::
  "(jsval \<Rightarrow> string option) \<Rightarrow> props \<Rightarrow> init_mkdocs_options \<Rightarrow> package_json
     \<Rightarrow> log_line list \<times> (error + props)" where
  "transform pathname_of content opts pkg =
     (let (site_name, l1) = resolve_site_name content opts pkg;
          (repo_url, l2) = resolve_repo_url content opts pkg
      in case resolve_repo_name pathname_of content opts repo_url of
           Inl e \<Rightarrow> (l1 @ l2, Inl e)
         | Inr (repo_name, l3) \<Rightarrow>
             (let (site_description, l4) = resolve_site_description content opts pkg
              in (l1 @ l2 @ l3 @ l4,
                  Inr (content(''site_name'' \<mapsto> site_name,
                               ''repo_url'' \<mapsto> repo_url,
                               ''repo_name'' \<mapsto> repo_name,
                               ''site_description'' \<mapsto> site_description)))))"

text \<open>
  A parser for the URLs used as concrete inputs below: \<^verbatim>\<open>http://\<close> or
  \<^verbatim>\<open>https://\<close>, a host, and a path of plain segments with no query and no fragment.
  On these the platform's \<^verbatim>\<open>pathname\<close> is the text from the first \<^verbatim>\<open>/\<close> after the
  host, or \<^verbatim>\<open>/\<close> when there is none; a string with neither scheme is taken as invalid.
\<close>

definition http_pathname :: "jsval \<Rightarrow> string option" where
  "http_pathname v =
     (case v of
        JStr s \<Rightarrow>
          (let rest = (if prefix ''https://'' s then Some (drop 8 s)
                       else if prefix ''http://'' s then Some (drop 7 s)
                       else None)
           in case rest of
                None \<Rightarrow> None
              | Some r \<Rightarrow>
                  (let path = dropWhile (\<lambda>c. c \<noteq> CHR ''/'') r
                   in if takeWhile (\<lambda>c. c \<noteq> CHR ''/'') r = [] then None
                      else Some (if path = [] then ''/'' else path)))
      | _ \<Rightarrow> None)"

text \<open>The options with every field omitted, and an empty \<^verbatim>\<open>package.json\<close>.\<close>

definition no_options :: init_mkdocs_options where
  "no_options =
     \<lparr>dest = None, packageJson = None, overwrite = None, dryRun = None, cwd = None,
      copyright = None, repoName = None, repoUrl = None, siteDescription = None,
      siteName = None\<rparr>"

definition no_package :: package_json where
  "no_package = \<lparr>name = None, description = None, repository = None\<rparr>"

text \<open>The properties of \<^verbatim>\<open>BASE_MKDOCS_YML\<close>.\<close>

definition BASE_MKDOCS_YML :: props where
  "BASE_MKDOCS_YML = [''INHERIT'' \<mapsto> JStr ''./node_modules/@appium/docutils/base-mkdocs.yml'']"

text \<open>
  The precedence in the words of the specification: the explicit option when it is given,
  else the existing value when there is one, else the fallback.  An existing value counts
  when it is truthy.
\<close>

definition precedence :: "string option \<Rightarrow> jsval \<Rightarrow> jsval \<Rightarrow> jsval" where
  "precedence explicit existing fallback =
     (case explicit of
        Some s \<Rightarrow> JStr s
      | None \<Rightarrow> if truthy existing then existing else fallback)"

text \<open>The four keys the transform sets.\<close>

definition mkdocs_keys :: "string set" where
  "mkdocs_keys = {''site_name'', ''repo_url'', ''repo_name'', ''site_description''}"

text \<open>
  A concrete invocation: an existing file with a site name and a navigation tree, a site
  name and a repository URL given as options, and a \<^verbatim>\<open>package.json\<close> with all three
  fields.
\<close>

definition example_content :: props where
  "example_content =
     BASE_MKDOCS_YML(''site_name'' \<mapsto> JStr ''Existing'', ''nav'' \<mapsto> JRef 7)"

definition example_options :: init_mkdocs_options where
  "example_options =
     no_options\<lparr>siteName := Some ''My Docs'',
                repoUrl := Some ''https://github.com/owner/repo.git''\<rparr>"

definition example_package :: package_json where
  "example_package =
     \<lparr>name = Some ''pkg'', description = Some ''About pkg'',
      repository = Some (RepoObject ''git'' ''https://github.com/appium/appium.git'' None)\<rparr>"

section \<open>The world the tasks act on\<close>

text \<open>
  The tasks are asynchronous functions that are awaited one after the other, so each is a
  function from the world before it to its outcome and the world after it.  The world is
  the console (the log lines written so far, oldest first) and the state of everything
  else the collaborators touch (files, processes), which this file never inspects.
\<close>

record 'x world =
  console :: "log_line list"
  extern :: 'x

type_synonym 'x action = "'x world \<Rightarrow> (error + unit) \<times> 'x world"

definition write_log :: "log_line \<Rightarrow> 'x world \<Rightarrow> 'x world" where
  "write_log l w = w\<lparr>console := console w @ [l]\<rparr>"



text \<open>An optional boolean used as a condition: undefined is falsy.\<close>

definition flag :: "bool option \<Rightarrow> bool" where
  "flag b = (case b of None \<Rightarrow> False | Some v \<Rightarrow> v)"

section \<open>\<^verbatim>\<open>initPython\<close>\<close>

text \<open>
  \<^verbatim>\<open>exec\<close> of \<^verbatim>\<open>teen_process\<close> is a collaborator: its promise resolves with an exit
  code and the text of the standard output, or rejects with an error.
\<close>

datatype exec_outcome = Resolved int string | Rejected error

text \<open>The decimal digits of a number, as \<^verbatim>\<open>${code}\<close> in a template string prints them.\<close>

fun decimal :: "nat \<Rightarrow> string" where
  "decimal n =
     (if n < 10 then [''0123456789'' ! n]
      else decimal (n div 10) @ [''0123456789'' ! (n mod 10)])"

definition exit_code_text :: "int \<Rightarrow> string" where
  "exit_code_text c = (if c < 0 then CHR ''-'' # decimal (nat (- c)) else decimal (nat c))"

text \<open>
  What \<^verbatim>\<open>exec\<close> of the \<^verbatim>\<open>teen_process\<close> library does with a subprocess that runs to
  its exit with an exit code and the text of its standard output: the promise resolves
  only for the exit code 0; for any other code it rejects with an \<^verbatim>\<open>Error\<close> whose
  message is \<^verbatim>\<open>Command '...' exited with code N\<close>, the command and its arguments joined
  by spaces between the quotes.  The standard output is a property of that error, not a
  part of its message.  (The library quotes an argument that holds a blank or a shell
  character; the arguments of \<^verbatim>\<open>initPython\<close> below hold none.)
\<close>

definition teen_process_exec ::
  "(string \<Rightarrow> string list \<Rightarrow> 'x \<Rightarrow> (int \<times> string) \<times> 'x)
     \<Rightarrow> string \<Rightarrow> string list \<Rightarrow> 'x \<Rightarrow> exec_outcome \<times> 'x" where
  "teen_process_exec subprocess cmd args x =
     (case subprocess cmd args x of
        ((code, out), x') \<Rightarrow>
          (if code = 0 then Resolved code out
           else Rejected
                  (OtherError
                     (''Command '' @ [CHR 0x27] @ join '' '' (map Some (cmd # args))
                      @ [CHR 0x27] @ '' exited with code '' @ exit_code_text code)),
           x'))"

definition NAME_PYTHON :: string where
  "NAME_PYTHON = ''python''"

text \<open>
  Lines 135 to 158.  The first parameter is \<^verbatim>\<open>exec\<close> (called with \<^verbatim>\<open>{shell: true}\<close>),
  the second the constant \<^verbatim>\<open>REQUIREMENTS_TXT_PATH\<close>, which is computed from the place of
  the package when the module is loaded.  The \<^verbatim>\<open>throw\<close> of line 149 stands inside the
  \<^verbatim>\<open>try\<close> block, so the \<^verbatim>\<open>catch\<close> of line 151 receives it as it receives a rejection
  of \<^verbatim>\<open>exec\<close>.
\<close>

definition initPython ::
  "(string \<Rightarrow> string list \<Rightarrow> 'x \<Rightarrow> exec_outcome \<times> 'x) \<Rightarrow> string
     \<Rightarrow> init_python_options \<Rightarrow> 'x action" where
  "initPython exec REQUIREMENTS_TXT_PATH opts w =
     (let python_path = (case pythonPath opts of None \<Rightarrow> NAME_PYTHON | Some p \<Rightarrow> p);
          dry_run = (case dryRun opts of None \<Rightarrow> False | Some d \<Rightarrow> d);
          args = [''-m'', ''pip'', ''install'', ''-r'', REQUIREMENTS_TXT_PATH];
          installed = LogLine ''init'' Success
            ''Installed Python dependencies (or dependencies already installed)'' []
      in if dry_run then
           (Inr (),
            write_log installed
              (write_log (LogLine ''dry-run'' Info ''Would execute command: %s %s''
                            [python_path, join '' '' (map Some args)]) w))
         else
           (let w1 = write_log (LogLine ''init'' Debug ''Executing command: %s %s''
                                  [python_path, join '' '' (map Some args)]) w;
                w2 = write_log (LogLine ''init'' Info ''Installing Python dependencies...'' [])
                       w1;
                (outcome, x) = exec python_path args (extern w2);
                w3 = w2\<lparr>extern := x\<rparr>;
                attempt =
                  (case outcome of
                     Rejected err \<Rightarrow> Inl err
                   | Resolved code stdout \<Rightarrow>
                       if code \<noteq> 0
                       then Inl (DocutilsError
                                   (''Could not install Python dependencies. Reason: ''
                                    @ stdout))
                       else Inr ())
            in case attempt of
                 Inl err \<Rightarrow>
                   (Inl (DocutilsError
                           (''Could not install Python dependencies. Reason: ''
                            @ message err)),
                    w3)
               | Inr u \<Rightarrow> (Inr (), write_log installed w3)))"

section \<open>\<^verbatim>\<open>init\<close>\<close>

text \<open>
  \<^verbatim>\<open>InitOptions\<close>, lines 261 to 296.  The fields carry the prefix \<open>init_\<close> here,
  since several of them share their names with fields of the task options.
\<close>

record init_options =
  init_typescript :: "bool option"
  init_typedoc :: "bool option"
  init_python :: "bool option"
  init_mkdocs :: "bool option"
  init_typedocJson :: "string option"
  init_tsConfigJson :: "string option"
  init_packageJson :: "string option"
  init_mkdocsPath :: "string option"
  init_overwrite :: "bool option"
  init_dryRun :: "bool option"
  init_cwd :: "string option"
  init_include :: "string list option"
  init_pythonPath :: "string option"
  init_copyright :: "string option"
  init_repoName :: "string option"
  init_repoUrl :: "string option"
  init_siteDescription :: "string option"
  init_siteName :: "string option"

text \<open>
  What \<^verbatim>\<open>init\<close> calls.  The three scaffold tasks are made by
  \<^verbatim>\<open>createScaffoldTask\<close> of \<^verbatim>\<open>init-task.ts\<close>; \<^verbatim>\<open>init\<close> is modelled for any three
  tasks.
\<close>

record 'x collaborators =
  exec :: "string \<Rightarrow> string list \<Rightarrow> 'x \<Rightarrow> exec_outcome \<times> 'x"
  REQUIREMENTS_TXT_PATH :: string
  initTsConfigJson :: "init_tsconfig_options \<Rightarrow> 'x action"
  initTypeDocJson :: "scaffold_task_options \<Rightarrow> 'x action"
  initMkDocs :: "init_mkdocs_options \<Rightarrow> 'x action"




definition mkdocs_options :: "init_options \<Rightarrow> init_mkdocs_options" where
  "mkdocs_options opts =
     \<lparr>dest = init_mkdocsPath opts, packageJson = init_packageJson opts,
      overwrite = init_overwrite opts, dryRun = init_dryRun opts, cwd = init_cwd opts,
      copyright = init_copyright opts, repoName = init_repoName opts,
      repoUrl = init_repoUrl opts, siteDescription = None,
      siteName = init_siteName opts\<rparr>"







fun run_steps :: "'x action list \<Rightarrow> 'x action" where
  "run_steps [] w = (Inr (), w)"
| "run_steps (a # as) w =
     (case a w of
        (Inl e, w') \<Rightarrow> (Inl e, w')
      | (Inr u, w') \<Rightarrow> run_steps as w')"

section \<open>The store of objects and the base templates\<close>

text \<open>
  Objects live in a store and are passed by reference.  The store is the list of the
  objects created so far, an object's address is its place in the list, and an object is
  its properties and the mark that \<^verbatim>\<open>Object.freeze\<close> sets.  An array is an object with the
  properties \<^verbatim>\<open>0\<close>, \<^verbatim>\<open>1\<close>, ... and \<^verbatim>\<open>length\<close>.
\<close>

record obj =
  properties :: props
  frozen :: bool

type_synonym heap = "obj list"

text \<open>An object literal \<^verbatim>\<open>{...}\<close> or \<^verbatim>\<open>[...]\<close> creates a new object that is not frozen.\<close>

definition object_literal :: "heap \<Rightarrow> props \<Rightarrow> heap \<times> addr" where
  "object_literal h ps = (h @ [\<lparr>properties = ps, frozen = False\<rparr>], length h)"

text \<open>\<^verbatim>\<open>Object.freeze(o)\<close> marks the object itself, not the objects its properties refer to.\<close>

definition freeze :: "heap \<Rightarrow> addr \<Rightarrow> heap" where
  "freeze h a = (if a < length h then h[a := (h ! a)\<lparr>frozen := True\<rparr>] else h)"

text \<open>
  \<^verbatim>\<open>o.k = v\<close> in strict mode, the one operation that changes an object that exists: it
  throws on a frozen object.  No line of \<^verbatim>\<open>init.ts\<close> performs it.
\<close>

definition set_property :: "heap \<Rightarrow> addr \<Rightarrow> string \<Rightarrow> jsval \<Rightarrow> error + heap" where
  "set_property h a k v =
     (if a < length h \<and> \<not> frozen (h ! a)
      then Inr (h[a := (h ! a)\<lparr>properties := (properties (h ! a))(k \<mapsto> v)\<rparr>])
      else Inl (TypeError ''Cannot assign to property of a frozen object''))"

text \<open>The properties of \<^verbatim>\<open>BASE_TYPEDOC_JSON\<close> and \<^verbatim>\<open>BASE_TSCONFIG_JSON\<close>, lines 25 to 49.\<close>

definition BASE_TYPEDOC_JSON :: "addr \<Rightarrow> addr \<Rightarrow> props" where
  "BASE_TYPEDOC_JSON plugin entryPoints =
     [''$schema'' \<mapsto> JStr ''https://typedoc.org/schema.json'',
      ''cleanOutputDir'' \<mapsto> JBool True,
      ''entryPointStrategy'' \<mapsto> JStr ''packages'',
      ''theme'' \<mapsto> JStr ''appium'',
      ''plugin'' \<mapsto> JRef plugin,
      ''readme'' \<mapsto> JStr ''none'',
      ''entryPoints'' \<mapsto> JRef entryPoints]"

definition BASE_TSCONFIG_JSON :: "addr \<Rightarrow> addr \<Rightarrow> props" where
  "BASE_TSCONFIG_JSON compilerOptions include_globs =
     [''$schema'' \<mapsto> JStr ''https://json.schemastore.org/tsconfig'',
      ''extends'' \<mapsto> JStr ''@appium/tsconfig/tsconfig.json'',
      ''compilerOptions'' \<mapsto> JRef compilerOptions,
      ''include'' \<mapsto> JRef include_globs]"

record templates =
  mkdocs_template :: addr
  typedoc_template :: addr
  tsconfig_template :: addr

text \<open>
  Lines 18 to 49, run once when the module is loaded: the three templates are created and
  frozen.  The arrays and the \<^verbatim>\<open>compilerOptions\<close> object inside them are not frozen.
\<close>

definition load_module :: "heap \<Rightarrow> heap \<times> templates" where
  "load_module h =
     (let (h1, mk) = object_literal h BASE_MKDOCS_YML;
          h2 = freeze h1 mk;
          (h3, plugin) = object_literal h2
             [''0'' \<mapsto> JStr ''@appium/typedoc-plugin-appium'',
              ''1'' \<mapsto> JStr ''typedoc-plugin-markdown'',
              ''2'' \<mapsto> JStr ''typedoc-plugin-resolve-crossmodule-references'',
              ''length'' \<mapsto> JNum 3];
          (h4, entryPoints) = object_literal h3 [''0'' \<mapsto> JStr ''.'', ''length'' \<mapsto> JNum 1];
          (h5, td) = object_literal h4 (BASE_TYPEDOC_JSON plugin entryPoints);
          h6 = freeze h5 td;
          (h7, compilerOptions) = object_literal h6 [''outDir'' \<mapsto> JStr ''build''];
          (h8, include_globs) = object_literal h7
             [''0'' \<mapsto> JStr ''lib'', ''1'' \<mapsto> JStr ''src'', ''2'' \<mapsto> JStr ''test'',
              ''length'' \<mapsto> JNum 3];
          (h9, ts) = object_literal h8 (BASE_TSCONFIG_JSON compilerOptions include_globs);
          h10 = freeze h9 ts
      in (h10, \<lparr>mkdocs_template = mk, typedoc_template = td, tsconfig_template = ts\<rparr>))"

text \<open>
  The transform on the store (lines 87 to 127): \<^verbatim>\<open>content\<close> is a reference, its
  properties are read, and the object literal of line 120 creates the object returned.
  A reference always points into the store; the model gives an error for an address
  outside it.
\<close>

definition transform_object ::
  "(jsval \<Rightarrow> string option) \<Rightarrow> heap \<Rightarrow> addr \<Rightarrow> init_mkdocs_options \<Rightarrow> package_json
     \<Rightarrow> log_line list \<times> (error + heap \<times> addr)" where
  "transform_object pathname_of h content opts pkg =
     (if content < length h then
        (case transform pathname_of (properties (h ! content)) opts pkg of
           (logs, Inl e) \<Rightarrow> (logs, Inl e)
         | (logs, Inr ps) \<Rightarrow> (logs, Inr (object_literal h ps)))
      else ([], Inl (TypeError ''content is not an object'')))"

section \<open>The scaffold tasks\<close>

text \<open>
  The hooks of a scaffold task work on the store: \<^verbatim>\<open>deserialize\<close> builds the objects of
  a parsed text, \<^verbatim>\<open>serialize\<close> reads an object, and \<^verbatim>\<open>transform\<close> gets the working
  content, the task's options and the project metadata.
\<close>

record 'o hooks =
  deserialize :: "heap \<Rightarrow> string \<Rightarrow> error + heap \<times> addr"
  serialize :: "heap \<Rightarrow> addr \<Rightarrow> string"
  transform_hook :: "heap \<Rightarrow> addr \<Rightarrow> 'o \<Rightarrow> package_json \<Rightarrow> log_line list \<times> (error + heap \<times> addr)"

text \<open>
  What a scaffold task finds around it: the working directory of the process, the joining
  of paths, the reader of \<^verbatim>\<open>package.json\<close> (absent fields when none is found), the
  writing of a file, the JSON and YAML libraries, the platform's URL parser, and the
  texts of the task's two log calls.
\<close>

record host =
  process_cwd :: string
  path_join :: "string \<Rightarrow> string \<Rightarrow> string"
  read_package :: "string option \<Rightarrow> string \<Rightarrow> (string \<rightharpoonup> string) \<Rightarrow> package_json"
  write_file :: "string \<Rightarrow> string \<Rightarrow> (string \<rightharpoonup> string) \<Rightarrow> error + (string \<rightharpoonup> string)"
  json_parse :: "heap \<Rightarrow> string \<Rightarrow> error + heap \<times> addr"
  json_stringify :: "heap \<Rightarrow> addr \<Rightarrow> string"
  yaml_parse :: "heap \<Rightarrow> string \<Rightarrow> error + heap \<times> addr"
  stringifyYaml :: "heap \<Rightarrow> addr \<Rightarrow> string"
  url_pathname :: "jsval \<Rightarrow> string option"
  task_tag :: string
  dry_run_format :: string
  success_format :: string

text \<open>The state behind the console, for the scaffold tasks: the store and the files.\<close>

record js_state =
  store :: heap
  disk :: "string \<rightharpoonup> string"

text \<open>
  Modelled from the spec: the default transform hook of \<^verbatim>\<open>createScaffoldTask\<close>
  (\<^verbatim>\<open>init-task.ts\<close> is not among the sources).  Section 4.2, step 5: absent a custom hook
  the working content is unchanged.
\<close>

definition default_transform ::
  "heap \<Rightarrow> addr \<Rightarrow> 'o \<Rightarrow> package_json \<Rightarrow> log_line list \<times> (error + heap \<times> addr)" where
  "default_transform h working opts pkg = ([], Inr (h, working))"

text \<open>
  Modelled from the spec: the fresh shallow copy of the base template that step 4 of
  section 4.2 starts from (\<^verbatim>\<open>init-task.ts\<close> is not among the sources).  The copy has the
  template's properties, so it shares the arrays and objects they refer to.
\<close>

definition shallow_copy :: "heap \<Rightarrow> addr \<Rightarrow> error + heap \<times> addr" where
  "shallow_copy h a =
     (if a < length h then Inr (object_literal h (properties (h ! a)))
      else Inl (TypeError ''the template is not an object''))"

text \<open>
  Modelled from the spec: \<^verbatim>\<open>createScaffoldTask\<close> of \<^verbatim>\<open>init-task.ts\<close>, which is not
  among the sources.  Section 4.2, steps 1 to 9: the destination is \<^verbatim>\<open>dest\<close> or the file
  name joined to \<^verbatim>\<open>cwd\<close>; the metadata is loaded; the working content is the
  deserialized existing file when there is one and \<^verbatim>\<open>overwrite\<close> is false, and a fresh
  shallow copy of the base template otherwise; the transform hook gives the final
  content; it is serialized; a dry run logs the destination and the text, any other run
  writes the file and logs the destination and the label.  A failure of parsing, of the
  transform or of writing is thrown.
\<close>

definition createScaffoldTask ::
  "host \<Rightarrow> string \<Rightarrow> addr \<Rightarrow> string \<Rightarrow> ('z scaffold_task_options_scheme) hooks
     \<Rightarrow> 'z scaffold_task_options_scheme \<Rightarrow> js_state action" where
  "createScaffoldTask env fileName baseTemplate label hks opts w =
     (let dir = (case cwd opts of None \<Rightarrow> process_cwd env | Some d \<Rightarrow> d);
          dest_path = (case dest opts of None \<Rightarrow> path_join env dir fileName | Some d \<Rightarrow> d);
          pkg = read_package env (packageJson opts) dir (disk (extern w));
          h = store (extern w);
          start = (case disk (extern w) dest_path of
                     None \<Rightarrow> shallow_copy h baseTemplate
                   | Some existing \<Rightarrow>
                       if flag (overwrite opts) then shallow_copy h baseTemplate
                       else deserialize hks h existing)
      in case start of
           Inl e \<Rightarrow> (Inl e, w)
         | Inr (h1, working) \<Rightarrow>
             (case transform_hook hks h1 working opts pkg of
                (logs, Inl e) \<Rightarrow>
                  (Inl e, w\<lparr>console := console w @ logs,
                            extern := (extern w)\<lparr>store := h1\<rparr>\<rparr>)
              | (logs, Inr (h2, final)) \<Rightarrow>
                  (let serialized = serialize hks h2 final;
                       w1 = w\<lparr>console := console w @ logs,
                              extern := (extern w)\<lparr>store := h2\<rparr>\<rparr>
                   in if flag (dryRun opts)
                      then (Inr (),
                            write_log (LogLine ''dry-run'' Info (dry_run_format env)
                                         [dest_path, serialized]) w1)
                      else (case write_file env dest_path serialized (disk (extern w1)) of
                              Inl e \<Rightarrow> (Inl e, w1)
                            | Inr d \<Rightarrow>
                                (Inr (),
                                 write_log (LogLine (task_tag env) Success (success_format env)
                                              [dest_path, label])
                                   (w1\<lparr>extern := (extern w1)\<lparr>disk := d\<rparr>\<rparr>))))))"

definition NAME_MKDOCS_YML :: string where
  "NAME_MKDOCS_YML = ''mkdocs.yml''"

definition NAME_TSCONFIG_JSON :: string where
  "NAME_TSCONFIG_JSON = ''tsconfig.json''"

text \<open>
  Modelled from the spec: the constant \<^verbatim>\<open>NAME_TYPEDOC_JSON\<close> of \<^verbatim>\<open>util.ts\<close>, which is
  not among the sources; the specification names the file \<^verbatim>\<open>typedoc.json\<close>.
\<close>

definition NAME_TYPEDOC_JSON :: string where
  "NAME_TYPEDOC_JSON = ''typedoc.json''"

text \<open>
  Lines 62 to 129: the three tasks, each \<^verbatim>\<open>createScaffoldTask\<close> applied to a file name,
  a template and a label; \<^verbatim>\<open>initMkDocs\<close> also passes the YAML hooks and the transform.
\<close>

definition scaffold_tsconfig :: "host \<Rightarrow> templates \<Rightarrow> init_tsconfig_options \<Rightarrow> js_state action" where
  "scaffold_tsconfig env t =
     createScaffoldTask env NAME_TSCONFIG_JSON (tsconfig_template t) ''TypeScript configuration''
       \<lparr>deserialize = json_parse env, serialize = json_stringify env,
        transform_hook = default_transform\<rparr>"

definition scaffold_typedoc :: "host \<Rightarrow> templates \<Rightarrow> scaffold_task_options \<Rightarrow> js_state action" where
  "scaffold_typedoc env t =
     createScaffoldTask env NAME_TYPEDOC_JSON (typedoc_template t) ''TypeDoc configuration''
       \<lparr>deserialize = json_parse env, serialize = json_stringify env,
        transform_hook = default_transform\<rparr>"

definition scaffold_mkdocs :: "host \<Rightarrow> templates \<Rightarrow> init_mkdocs_options \<Rightarrow> js_state action" where
  "scaffold_mkdocs env t =
     createScaffoldTask env NAME_MKDOCS_YML (mkdocs_template t) ''MkDocs configuration''
       \<lparr>deserialize = yaml_parse env, serialize = stringifyYaml env,
        transform_hook = transform_object (url_pathname env)\<rparr>"

text \<open>
  What is asked of a parser: it may create objects, and it leaves the objects that exist
  as they are.
\<close>

definition allocates_only :: "(heap \<Rightarrow> string \<Rightarrow> error + heap \<times> addr) \<Rightarrow> bool" where
  "allocates_only parse \<longleftrightarrow> (\<forall>h s h' a. parse h s = Inr (h', a) \<longrightarrow> prefix h h')"

section \<open>Concrete collaborators\<close>

text \<open>
  Collaborators for the concrete runs below.  The state behind the console is the list of
  the subprocesses spawned so far; \<open>recording_exec\<close> spawns one and answers with a fixed
  outcome, and \<open>announce\<close> is a task that writes one line and ends with a fixed outcome.
\<close>

definition recording_exec ::
  "exec_outcome \<Rightarrow> string \<Rightarrow> string list \<Rightarrow> (string \<times> string list) list
     \<Rightarrow> exec_outcome \<times> (string \<times> string list) list" where
  "recording_exec outcome cmd args spawned = (outcome, spawned @ [(cmd, args)])"

text \<open>A subprocess that is spawned and exits with a fixed code and standard output.\<close>

definition exiting_process ::
  "int \<Rightarrow> string \<Rightarrow> string \<Rightarrow> string list \<Rightarrow> (string \<times> string list) list
     \<Rightarrow> (int \<times> string) \<times> (string \<times> string list) list" where
  "exiting_process code out cmd args spawned = ((code, out), spawned @ [(cmd, args)])"



definition fresh_world :: "(string \<times> string list) list world" where
  "fresh_world = \<lparr>console = [], extern = []\<rparr>"

definition no_python_options :: init_python_options where
  "no_python_options =
     \<lparr>dest = None, packageJson = None, overwrite = None, dryRun = None, cwd = None,
      pythonPath = None\<rparr>"



text \<open>
  Collaborators for a concrete run of a scaffold task: a parser that makes one object
  holding the text it was given, and a printer that gives the site name back.
\<close>

definition example_parse :: "heap \<Rightarrow> string \<Rightarrow> error + heap \<times> addr" where
  "example_parse h s =
     (if s = [] then Inl (OtherError ''Unexpected end of input'')
      else Inr (object_literal h [''site_name'' \<mapsto> JStr s]))"

definition example_stringify :: "heap \<Rightarrow> addr \<Rightarrow> string" where
  "example_stringify h a =
     (if a < length h
      then (case properties (h ! a) ''site_name'' of Some (JStr s) \<Rightarrow> s | _ \<Rightarrow> [])
      else [])"

definition example_host :: host where
  "example_host =
     \<lparr>process_cwd = ''/work'',
      path_join = (\<lambda>a b. a @ ''/'' @ b),
      read_package = (\<lambda>path dir files. example_package),
      write_file = (\<lambda>path content files. Inr (files(path \<mapsto> content))),
      json_parse = example_parse,
      json_stringify = example_stringify,
      yaml_parse = example_parse,
      stringifyYaml = example_stringify,
      url_pathname = http_pathname,
      task_tag = ''init'',
      dry_run_format = ''Would write %s: %s'',
      success_format = ''Wrote %s (%s)''\<rparr>"

text \<open>The world right after the module is loaded into an empty store, with no files.\<close>

definition loaded_world :: "js_state world" where
  "loaded_world =
     \<lparr>console = [], extern = \<lparr>store = fst (load_module []), disk = Map.empty\<rparr>\<rparr>"

section \<open>Properties of the transform\<close>

subsection \<open>Evaluation and auxiliary facts\<close>

lemmas transform_eval =
  transform_def resolve_site_name_def resolve_repo_url_def resolve_repo_name_def
  resolve_site_description_def derive_repo_name_def http_pathname_def strip_git_suffix_def
  coalesce_def of_optional_def get_prop_def repository_url_def log_info_def
  no_options_def no_package_def BASE_MKDOCS_YML_def suffix_to_prefix Let_def

lemma example_run:
  "transform http_pathname example_content example_options example_package =
     ([LogLine ''init'' Info ''Using repo name from package.json: %s'' [''owner/repo''],
       LogLine ''init'' Info ''Using site description URL from package.json: %s''
         [''About pkg'']],
      Inr (example_content(''site_name'' \<mapsto> JStr ''My Docs'',
             ''repo_url'' \<mapsto> JStr ''https://github.com/owner/repo.git'',
             ''repo_name'' \<mapsto> JStr ''owner/repo'',
             ''site_description'' \<mapsto> JStr ''About pkg'')))"
  by (simp add: transform_eval example_content_def example_options_def example_package_def)

lemma placeholder_run:
  "transform http_pathname BASE_MKDOCS_YML no_options no_package =
     ([LogLine ''init'' Info ''Using site name from package.json: %s'' [''(no name)'']],
      Inr (BASE_MKDOCS_YML(''site_name'' \<mapsto> JStr ''(no name)'',
             ''repo_url'' \<mapsto> JUndefined,
             ''repo_name'' \<mapsto> JUndefined,
             ''site_description'' \<mapsto> JUndefined)))"
  by (simp add: transform_eval)

lemma resolve_site_name_precedence:
  "siteName opts \<noteq> Some [] \<Longrightarrow>
   fst (resolve_site_name content opts pkg) =
     precedence (siteName opts) (get_prop content ''site_name'')
       (JStr (case name pkg of None \<Rightarrow> ''(no name)'' | Some n \<Rightarrow> n))"
  by (auto simp: resolve_site_name_def coalesce_def of_optional_def precedence_def Let_def
      split: option.splits)

lemma resolve_repo_url_precedence:
  "repoUrl opts \<noteq> Some [] \<Longrightarrow>
   fst (resolve_repo_url content opts pkg) =
     precedence (repoUrl opts) (get_prop content ''repo_url'')
       (of_optional (repository_url pkg))"
  by (auto simp: resolve_repo_url_def coalesce_def of_optional_def precedence_def Let_def
      split: option.splits)

lemma resolve_site_description_precedence:
  "siteDescription opts \<noteq> Some [] \<Longrightarrow>
   fst (resolve_site_description content opts pkg) =
     precedence (siteDescription opts) (get_prop content ''site_description'')
       (of_optional (description pkg))"
  by (auto simp: resolve_site_description_def coalesce_def of_optional_def precedence_def
      Let_def split: option.splits)

lemma resolve_repo_name_cases:
  assumes "repoName opts \<noteq> Some []"
    and "resolve_repo_name p content opts url = Inr (rn, l)"
  shows "case repoName opts of
           Some s \<Rightarrow> rn = JStr s
         | None \<Rightarrow>
             if truthy (get_prop content ''repo_name'') then rn = get_prop content ''repo_name''
             else if truthy url then \<exists>n. derive_repo_name p url = Inr n \<and> rn = JStr n
             else rn = get_prop content ''repo_name''"
  using assms
  by (auto simp: resolve_repo_name_def coalesce_def of_optional_def Let_def
      split: option.splits sum.splits if_splits)

text \<open>
  The transform returns exactly when the repository name needs no derivation or the
  derivation succeeds, and what it returns is the content with the four keys set.
\<close>

lemma transform_Inr:
  "snd (transform p content opts pkg) = Inr out \<longleftrightarrow>
     (\<exists>rn l. resolve_repo_name p content opts (fst (resolve_repo_url content opts pkg))
                = Inr (rn, l) \<and>
       out = content(''site_name'' \<mapsto> fst (resolve_site_name content opts pkg),
                     ''repo_url'' \<mapsto> fst (resolve_repo_url content opts pkg),
                     ''repo_name'' \<mapsto> rn,
                     ''site_description'' \<mapsto>
                        fst (resolve_site_description content opts pkg)))"
  by (auto simp: transform_def Let_def split: prod.splits sum.splits)

lemma resolve_site_name_copyright:
  "resolve_site_name content (opts\<lparr>copyright := c\<rparr>) pkg = resolve_site_name content opts pkg"
  by (simp add: resolve_site_name_def)

lemma resolve_repo_url_copyright:
  "resolve_repo_url content (opts\<lparr>copyright := c\<rparr>) pkg = resolve_repo_url content opts pkg"
  by (simp add: resolve_repo_url_def)

lemma resolve_repo_name_copyright:
  "resolve_repo_name p content (opts\<lparr>copyright := c\<rparr>) u = resolve_repo_name p content opts u"
  by (simp add: resolve_repo_name_def)

lemma resolve_site_description_copyright:
  "resolve_site_description content (opts\<lparr>copyright := c\<rparr>) pkg =
   resolve_site_description content opts pkg"
  by (simp add: resolve_site_description_def)

lemma transform_copyright:
  "transform pathname_of content (opts\<lparr>copyright := c\<rparr>) pkg =
   transform pathname_of content opts pkg"
  unfolding transform_def resolve_site_name_copyright resolve_repo_url_copyright
    resolve_repo_name_copyright resolve_site_description_copyright ..

subsection \<open>Precedence of the four fields\<close>

text \<open>
  Claim C1, as amended.  Let no explicit option be the empty string, and let the transform
  return.  Then \<^verbatim>\<open>site_name\<close>, \<^verbatim>\<open>repo_url\<close> and \<^verbatim>\<open>site_description\<close> are
  each the explicit option when given, else the existing value when truthy, else the value
  of \<^verbatim>\<open>package.json\<close> (\<^verbatim>\<open>name\<close>, \<^verbatim>\<open>repository.url\<close>, \<^verbatim>\<open>description\<close>),
  else undefined, except that a missing package name gives the site name
  \<^verbatim>\<open>(no name)\<close>.  \<^verbatim>\<open>repo_name\<close> is the explicit option when given, else the existing
  value when truthy, else the name derived from the resolved repository URL when that URL
  is truthy, else the existing value unchanged.
\<close>

theorem transform_precedence:
  assumes "siteName opts \<noteq> Some []" and "repoUrl opts \<noteq> Some []"
    and "repoName opts \<noteq> Some []" and "siteDescription opts \<noteq> Some []"
    and "snd (transform pathname_of content opts pkg) = Inr out"
  shows "out ''site_name'' =
           Some (precedence (siteName opts) (get_prop content ''site_name'')
                   (JStr (case name pkg of None \<Rightarrow> ''(no name)'' | Some n \<Rightarrow> n)))
       \<and> out ''repo_url'' =
           Some (precedence (repoUrl opts) (get_prop content ''repo_url'')
                   (of_optional (repository_url pkg)))
       \<and> out ''site_description'' =
           Some (precedence (siteDescription opts) (get_prop content ''site_description'')
                   (of_optional (description pkg)))
       \<and> (let url = precedence (repoUrl opts) (get_prop content ''repo_url'')
                       (of_optional (repository_url pkg));
               existing = get_prop content ''repo_name''
           in case repoName opts of
                Some s \<Rightarrow> out ''repo_name'' = Some (JStr s)
              | None \<Rightarrow>
                  if truthy existing then out ''repo_name'' = Some existing
                  else if truthy url
                  then \<exists>n. derive_repo_name pathname_of url = Inr n
                           \<and> out ''repo_name'' = Some (JStr n)
                  else out ''repo_name'' = Some existing)"
proof -
  from assms(5) obtain rn l where
    rn: "resolve_repo_name pathname_of content opts (fst (resolve_repo_url content opts pkg))
           = Inr (rn, l)"
    and out: "out = content(''site_name'' \<mapsto> fst (resolve_site_name content opts pkg),
                     ''repo_url'' \<mapsto> fst (resolve_repo_url content opts pkg),
                     ''repo_name'' \<mapsto> rn,
                     ''site_description'' \<mapsto>
                        fst (resolve_site_description content opts pkg))"
    unfolding transform_Inr by blast
  have a: "out ''site_name'' = Some (fst (resolve_site_name content opts pkg))"
    and b: "out ''repo_url'' = Some (fst (resolve_repo_url content opts pkg))"
    and c: "out ''site_description'' = Some (fst (resolve_site_description content opts pkg))"
    and d: "out ''repo_name'' = Some rn"
    by (simp_all add: out)
  note n = resolve_repo_name_cases [OF assms(3) rn]
  show ?thesis
    unfolding a b c d
      resolve_site_name_precedence [OF assms(1)]
      resolve_repo_url_precedence [OF assms(2)]
      resolve_site_description_precedence [OF assms(4)]
    using n
    by (auto simp add: resolve_repo_url_precedence [OF assms(2)] Let_def
        split: option.splits if_splits)
qed

text \<open>
  The theorem at the concrete invocation: the explicit site name wins over the existing
  one, and the description comes from \<^verbatim>\<open>package.json\<close>.
\<close>

theorem transform_precedence_witness:
  "siteName example_options \<noteq> Some [] \<and> repoUrl example_options \<noteq> Some []
   \<and> repoName example_options \<noteq> Some [] \<and> siteDescription example_options \<noteq> Some []
   \<and> snd (transform http_pathname example_content example_options example_package) =
       Inr (example_content(''site_name'' \<mapsto> JStr ''My Docs'',
             ''repo_url'' \<mapsto> JStr ''https://github.com/owner/repo.git'',
             ''repo_name'' \<mapsto> JStr ''owner/repo'',
             ''site_description'' \<mapsto> JStr ''About pkg''))
   \<and> precedence (siteName example_options) (get_prop example_content ''site_name'')
         (JStr (case name example_package of None \<Rightarrow> ''(no name)'' | Some n \<Rightarrow> n))
       = JStr ''My Docs''
   \<and> precedence (siteDescription example_options)
         (get_prop example_content ''site_description'')
         (of_optional (description example_package))
       = JStr ''About pkg''"
proof -
  have o: "siteName example_options \<noteq> Some []" "repoUrl example_options \<noteq> Some []"
    "repoName example_options \<noteq> Some []" "siteDescription example_options \<noteq> Some []"
    by (simp_all add: example_options_def no_options_def)
  have r: "snd (transform http_pathname example_content example_options example_package) =
       Inr (example_content(''site_name'' \<mapsto> JStr ''My Docs'',
             ''repo_url'' \<mapsto> JStr ''https://github.com/owner/repo.git'',
             ''repo_name'' \<mapsto> JStr ''owner/repo'',
             ''site_description'' \<mapsto> JStr ''About pkg''))"
    by (simp add: example_run)
  from transform_precedence [OF o r] o r show ?thesis
    by simp
qed

text \<open>
  Claim C1 as stated fails: with no option, no existing value and no package name, the
  site name is not absent but the placeholder \<^verbatim>\<open>(no name)\<close>.
\<close>

theorem transform_site_name_placeholder:
  "siteName no_options = None \<and> BASE_MKDOCS_YML ''site_name'' = None
   \<and> name no_package = None
   \<and> snd (transform http_pathname BASE_MKDOCS_YML no_options no_package) =
       Inr (BASE_MKDOCS_YML(''site_name'' \<mapsto> JStr ''(no name)'',
             ''repo_url'' \<mapsto> JUndefined,
             ''repo_name'' \<mapsto> JUndefined,
             ''site_description'' \<mapsto> JUndefined))"
  by (simp add: placeholder_run) (simp add: no_options_def no_package_def BASE_MKDOCS_YML_def)

subsection \<open>The derived repository name\<close>

lemma split_no_separator: "c \<notin> set s \<Longrightarrow> split c s = [s]"
  by (induction s) auto



lemma derive_repo_name_one_segment:
  assumes "pathname_of url = Some (x # owner)" and "CHR ''/'' \<notin> set owner"
  shows "derive_repo_name pathname_of url =
           Inl (TypeError ''Cannot read properties of undefined (reading 'replace')'')"
  using assms
  by (simp add: derive_repo_name_def split_no_separator)



text \<open>
  Claim C3 does not hold of the code.  With the repository URL
  \<^verbatim>\<open>https://github.com/owner\<close>, whose path has one segment, and no repository name
  given, the transform does not return a malformed name: \<^verbatim>\<open>repo\<close> is undefined and
  \<^verbatim>\<open>repo.replace\<close> of line 107 throws a \<^verbatim>\<open>TypeError\<close>.
\<close>

theorem transform_single_segment_throws:
  "transform http_pathname BASE_MKDOCS_YML
     (no_options\<lparr>repoUrl := Some ''https://github.com/owner''\<rparr>) no_package =
     ([LogLine ''init'' Info ''Using site name from package.json: %s'' [''(no name)'']],
      Inl (TypeError ''Cannot read properties of undefined (reading 'replace')''))"
  by (simp add: transform_eval)

subsection \<open>The log lines\<close>

text \<open>
  The repository URL and the site description are logged exactly when the value is taken
  from \<^verbatim>\<open>package.json\<close> and is not empty.
\<close>

lemma resolve_repo_url_logs:
  "snd (resolve_repo_url content opts pkg) =
     (if truthy (coalesce (of_optional (repoUrl opts)) (get_prop content ''repo_url'')) then []
      else case repository_url pkg of
             None \<Rightarrow> []
           | Some u \<Rightarrow> if u = [] then []
                       else [log_info ''Using repo URL from package.json: %s'' [u]])"
  by (simp add: resolve_repo_url_def Let_def split: option.splits)

lemma resolve_site_description_logs:
  "snd (resolve_site_description content opts pkg) =
     (if truthy (coalesce (of_optional (siteDescription opts))
                   (get_prop content ''site_description'')) then []
      else case description pkg of
             None \<Rightarrow> []
           | Some d \<Rightarrow> if d = [] then []
                       else [log_info ''Using site description URL from package.json: %s'' [d]])"
  by (simp add: resolve_site_description_def Let_def split: option.splits)

text \<open>
  Claim C5 does not hold of the code.  With the repository URL given as an option and a
  \<^verbatim>\<open>package.json\<close> that has neither a name nor a repository, two lines that say
  \<^verbatim>\<open>from package.json\<close> are written: one for the placeholder site name, one for the
  repository name derived from the option.
\<close>

theorem transform_logs_without_metadata:
  "name no_package = None \<and> repository no_package = None
   \<and> transform http_pathname BASE_MKDOCS_YML
       (no_options\<lparr>repoUrl := Some ''https://github.com/owner/repo.git''\<rparr>) no_package =
       ([LogLine ''init'' Info ''Using site name from package.json: %s'' [''(no name)''],
         LogLine ''init'' Info ''Using repo name from package.json: %s'' [''owner/repo'']],
        Inr (BASE_MKDOCS_YML(''site_name'' \<mapsto> JStr ''(no name)'',
               ''repo_url'' \<mapsto> JStr ''https://github.com/owner/repo.git'',
               ''repo_name'' \<mapsto> JStr ''owner/repo'',
               ''site_description'' \<mapsto> JUndefined)))"
  by (simp add: transform_eval)

subsection \<open>The other keys\<close>

text \<open>
  Claim C4.  When the transform returns, every key other than the four has the value it had
  in the input content (or is missing as it was), and the keys of the result are those of
  the input together with the four.
\<close>

theorem transform_frame:
  assumes "snd (transform pathname_of content opts pkg) = Inr out"
  shows "(\<forall>k. k \<notin> mkdocs_keys \<longrightarrow> out k = content k)
       \<and> dom out = dom content \<union> mkdocs_keys"
  using assms unfolding transform_Inr mkdocs_keys_def by auto

theorem transform_frame_witness:
  "snd (transform http_pathname example_content example_options example_package) =
     Inr (example_content(''site_name'' \<mapsto> JStr ''My Docs'',
           ''repo_url'' \<mapsto> JStr ''https://github.com/owner/repo.git'',
           ''repo_name'' \<mapsto> JStr ''owner/repo'',
           ''site_description'' \<mapsto> JStr ''About pkg''))
   \<and> ''nav'' \<notin> mkdocs_keys
   \<and> (example_content(''site_name'' \<mapsto> JStr ''My Docs'',
           ''repo_url'' \<mapsto> JStr ''https://github.com/owner/repo.git'',
           ''repo_name'' \<mapsto> JStr ''owner/repo'',
           ''site_description'' \<mapsto> JStr ''About pkg'')) ''nav'' = Some (JRef 7)
   \<and> dom (example_content(''site_name'' \<mapsto> JStr ''My Docs'',
           ''repo_url'' \<mapsto> JStr ''https://github.com/owner/repo.git'',
           ''repo_name'' \<mapsto> JStr ''owner/repo'',
           ''site_description'' \<mapsto> JStr ''About pkg''))
       = {''INHERIT'', ''nav'', ''site_name'', ''repo_url'', ''repo_name'', ''site_description''}"
proof -
  have r: "snd (transform http_pathname example_content example_options example_package) =
     Inr (example_content(''site_name'' \<mapsto> JStr ''My Docs'',
           ''repo_url'' \<mapsto> JStr ''https://github.com/owner/repo.git'',
           ''repo_name'' \<mapsto> JStr ''owner/repo'',
           ''site_description'' \<mapsto> JStr ''About pkg''))"
    by (simp add: example_run)
  have k: "''nav'' \<notin> mkdocs_keys"
    by (simp add: mkdocs_keys_def)
  have d: "dom example_content = {''INHERIT'', ''nav'', ''site_name''}"
    by (auto simp: example_content_def BASE_MKDOCS_YML_def)
  from transform_frame [OF r] k r d show ?thesis
    by (auto simp: example_content_def mkdocs_keys_def)
qed

subsection \<open>The copyright option\<close>

text \<open>
  Claim C10.  The transform does not read the \<^verbatim>\<open>copyright\<close> option: whatever value it
  is given, the log lines and the result are the same.
\<close>

theorem transform_ignores_copyright:
  "transform pathname_of content (opts\<lparr>copyright := c\<rparr>) pkg =
   transform pathname_of content opts pkg"
  by (rule transform_copyright)


section \<open>Properties of \<^verbatim>\<open>initPython\<close>\<close>

text \<open>
  The call resolves exactly in a dry run or when \<^verbatim>\<open>exec\<close> resolves with the exit code 0:
  every other outcome of \<^verbatim>\<open>exec\<close> is thrown.
\<close>

lemma initPython_succeeds_iff:
  "fst (initPython run req opts w) = Inr () \<longleftrightarrow>
     dryRun opts = Some True
     \<or> (\<exists>out. fst (run (case pythonPath opts of None \<Rightarrow> NAME_PYTHON | Some p \<Rightarrow> p)
                  [''-m'', ''pip'', ''install'', ''-r'', req] (extern w)) = Resolved 0 out)"
  by (auto simp: initPython_def Let_def write_log_def
      split: option.splits prod.splits exec_outcome.splits sum.splits if_splits)

text \<open>A rejection of \<^verbatim>\<open>exec\<close> is thrown with the message of its error.\<close>

lemma initPython_exec_rejected:
  assumes "dryRun opts \<noteq> Some True"
    and "run (case pythonPath opts of None \<Rightarrow> NAME_PYTHON | Some p \<Rightarrow> p)
           [''-m'', ''pip'', ''install'', ''-r'', req] (extern w) = (Rejected err, x)"
  shows "fst (initPython run req opts w) =
           Inl (DocutilsError
                  (''Could not install Python dependencies. Reason: '' @ message err))"
proof -
  have d: "(case dryRun opts of None \<Rightarrow> False | Some d \<Rightarrow> d) = False"
    using assms(1) by (cases "dryRun opts") auto
  show ?thesis
    using assms(2) unfolding initPython_def Let_def d
    by (simp add: write_log_def)
qed

text \<open>
  Line 149: were \<^verbatim>\<open>exec\<close> to resolve with an exit code other than 0 and the standard
  output \<open>out\<close>, the error thrown would end with \<open>out\<close>, wrapped once more by the
  \<^verbatim>\<open>catch\<close> of line 151.
\<close>

lemma initPython_resolved_nonzero:
  assumes "dryRun opts \<noteq> Some True"
    and "run (case pythonPath opts of None \<Rightarrow> NAME_PYTHON | Some p \<Rightarrow> p)
           [''-m'', ''pip'', ''install'', ''-r'', req] (extern w) = (Resolved code out, x)"
    and "code \<noteq> 0"
  shows "fst (initPython run req opts w) =
           Inl (DocutilsError
                  (''Could not install Python dependencies. Reason: ''
                   @ ''Could not install Python dependencies. Reason: '' @ out))
       \<and> (case fst (initPython run req opts w) of
             Inl err \<Rightarrow> sublist out (message err)
           | Inr u \<Rightarrow> False)"
proof -
  have d: "(case dryRun opts of None \<Rightarrow> False | Some d \<Rightarrow> d) = False"
    using assms(1) by (cases "dryRun opts") auto
  have r: "fst (initPython run req opts w) =
           Inl (DocutilsError
                  (''Could not install Python dependencies. Reason: ''
                   @ ''Could not install Python dependencies. Reason: '' @ out))"
    using assms(2,3) unfolding initPython_def Let_def d
    by (simp add: write_log_def)
  have "sublist out ((''Could not install Python dependencies. Reason: ''
                 @ ''Could not install Python dependencies. Reason: '') @ out @ [])"
    by (rule sublist_appendI)
  then show ?thesis
    unfolding r by (simp del: append.simps)
qed

text \<open>
  With \<^verbatim>\<open>exec\<close> of \<^verbatim>\<open>teen_process\<close>, a subprocess that exits with a code other than 0
  never reaches line 148: the promise rejects, and the error thrown carries the message of
  the rejection.
\<close>

lemma initPython_nonzero_exit_rejected:
  assumes "dryRun opts \<noteq> Some True"
    and "subprocess (case pythonPath opts of None \<Rightarrow> NAME_PYTHON | Some p \<Rightarrow> p)
           [''-m'', ''pip'', ''install'', ''-r'', req] (extern w) = ((code, out), x)"
    and "code \<noteq> 0"
  shows "fst (initPython (teen_process_exec subprocess) req opts w) =
           Inl (DocutilsError
                  (''Could not install Python dependencies. Reason: ''
                   @ ''Command '' @ [CHR 0x27]
                   @ join '' '' (map Some
                        ((case pythonPath opts of None \<Rightarrow> NAME_PYTHON | Some p \<Rightarrow> p)
                         # [''-m'', ''pip'', ''install'', ''-r'', req]))
                   @ [CHR 0x27] @ '' exited with code '' @ exit_code_text code))"
proof -
  have "teen_process_exec subprocess
          (case pythonPath opts of None \<Rightarrow> NAME_PYTHON | Some p \<Rightarrow> p)
          [''-m'', ''pip'', ''install'', ''-r'', req] (extern w) =
        (Rejected
           (OtherError
              (''Command '' @ [CHR 0x27]
               @ join '' '' (map Some
                    ((case pythonPath opts of None \<Rightarrow> NAME_PYTHON | Some p \<Rightarrow> p)
                     # [''-m'', ''pip'', ''install'', ''-r'', req]))
               @ [CHR 0x27] @ '' exited with code '' @ exit_code_text code)), x)"
    using assms(2,3) by (simp add: teen_process_exec_def)
  from initPython_exec_rejected
      [where run = "teen_process_exec subprocess" and opts = opts and req = req and w = w,
       OF assms(1) this]
  show ?thesis
    by simp
qed

text \<open>
  Claim C7 does not hold of the code.  The subprocess \<^verbatim>\<open>python -m pip install -r
  /pkg/requirements.txt\<close> is spawned and exits with the code 1 and the standard output
  \<^verbatim>\<open>ERROR: No matching distribution\<close>.  \<^verbatim>\<open>initPython\<close> rejects, but the message of
  its error is that of the rejection of \<^verbatim>\<open>exec\<close> and does not contain the standard
  output.
\<close>

theorem initPython_exit_code_loses_stdout:
  "initPython (teen_process_exec (exiting_process 1 ''ERROR: No matching distribution''))
     ''/pkg/requirements.txt'' no_python_options fresh_world =
     (Inl (DocutilsError
             (''Could not install Python dependencies. Reason: Command ''
              @ [CHR 0x27] @ ''python -m pip install -r /pkg/requirements.txt''
              @ [CHR 0x27] @ '' exited with code 1'')),
      \<lparr>console =
         [LogLine ''init'' Debug ''Executing command: %s %s''
            [''python'', ''-m pip install -r /pkg/requirements.txt''],
          LogLine ''init'' Info ''Installing Python dependencies...'' []],
       extern = [(''python'', [''-m'', ''pip'', ''install'', ''-r'', ''/pkg/requirements.txt''])]\<rparr>)
   \<and> \<not> sublist ''ERROR: No matching distribution''
         (''Could not install Python dependencies. Reason: Command ''
          @ [CHR 0x27] @ ''python -m pip install -r /pkg/requirements.txt''
          @ [CHR 0x27] @ '' exited with code 1'')"
proof (intro conjI)
  show "initPython (teen_process_exec (exiting_process 1 ''ERROR: No matching distribution''))
     ''/pkg/requirements.txt'' no_python_options fresh_world =
     (Inl (DocutilsError
             (''Could not install Python dependencies. Reason: Command ''
              @ [CHR 0x27] @ ''python -m pip install -r /pkg/requirements.txt''
              @ [CHR 0x27] @ '' exited with code 1'')),
      \<lparr>console =
         [LogLine ''init'' Debug ''Executing command: %s %s''
            [''python'', ''-m pip install -r /pkg/requirements.txt''],
          LogLine ''init'' Info ''Installing Python dependencies...'' []],
       extern = [(''python'', [''-m'', ''pip'', ''install'', ''-r'', ''/pkg/requirements.txt''])]\<rparr>)"
    by (simp add: initPython_def Let_def teen_process_exec_def exiting_process_def
        no_python_options_def NAME_PYTHON_def fresh_world_def write_log_def exit_code_text_def)
  show "\<not> sublist ''ERROR: No matching distribution''
         (''Could not install Python dependencies. Reason: Command ''
          @ [CHR 0x27] @ ''python -m pip install -r /pkg/requirements.txt''
          @ [CHR 0x27] @ '' exited with code 1'')"
    by (simp add: sublist_Cons_right)
qed

text \<open>
  Claim C8.  In a dry run with \<^verbatim>\<open>pythonPath = "python3"\<close> the call resolves; it writes
  the command on the dry-run channel, then the closing line of line 157, and nothing else
  changes: the result does not depend on \<^verbatim>\<open>exec\<close>, which is not called.
\<close>

theorem initPython_dry_run:
  assumes "dryRun opts = Some True" and "pythonPath opts = Some ''python3''"
  shows "initPython run req opts w =
           (Inr (),
            w\<lparr>console := console w @
               [LogLine ''dry-run'' Info ''Would execute command: %s %s''
                  [''python3'', ''-m pip install -r '' @ req],
                LogLine ''init'' Success
                  ''Installed Python dependencies (or dependencies already installed)'' []]\<rparr>)
       \<and> render (LogLine ''dry-run'' Info ''Would execute command: %s %s''
                  [''python3'', ''-m pip install -r '' @ req])
           = ''Would execute command: python3 -m pip install -r '' @ req"
  using assms by (simp add: initPython_def Let_def write_log_def render_def)

theorem initPython_dry_run_witness:
  "dryRun (no_python_options\<lparr>dryRun := Some True, pythonPath := Some ''python3''\<rparr>) = Some True
   \<and> pythonPath (no_python_options\<lparr>dryRun := Some True, pythonPath := Some ''python3''\<rparr>)
       = Some ''python3''
   \<and> initPython (recording_exec (Resolved 0 ''ok'')) ''/pkg/requirements.txt''
       (no_python_options\<lparr>dryRun := Some True, pythonPath := Some ''python3''\<rparr>) fresh_world =
       (Inr (),
        \<lparr>console =
           [LogLine ''dry-run'' Info ''Would execute command: %s %s''
              [''python3'', ''-m pip install -r /pkg/requirements.txt''],
            LogLine ''init'' Success
              ''Installed Python dependencies (or dependencies already installed)'' []],
         extern = []\<rparr>)"
proof -
  have a: "dryRun (no_python_options\<lparr>dryRun := Some True, pythonPath := Some ''python3''\<rparr>)
      = Some True"
    and b: "pythonPath (no_python_options\<lparr>dryRun := Some True, pythonPath := Some ''python3''\<rparr>)
      = Some ''python3''"
    by simp_all
  from initPython_dry_run [OF a b, of "recording_exec (Resolved 0 ''ok'')"
      "''/pkg/requirements.txt''" fresh_world] a b
  show ?thesis
    by (simp add: fresh_world_def)
qed

section \<open>Properties of \<^verbatim>\<open>init\<close>\<close>












section \<open>The base templates and the store\<close>

lemma prefix_nth: "prefix h h' \<Longrightarrow> a < length h \<Longrightarrow> h' ! a = h ! a"
  by (auto simp: prefix_def nth_append)

lemma prefix_shallow_copy: "shallow_copy h a = Inr (h', b) \<Longrightarrow> prefix h h'"
  by (auto simp: shallow_copy_def object_literal_def split: if_splits)

lemma prefix_transform_object:
  "transform_object p h content opts pkg = (logs, Inr (h', a)) \<Longrightarrow> prefix h h'"
  by (auto simp: transform_object_def object_literal_def split: if_splits prod.splits sum.splits)

lemma prefix_default_transform:
  "default_transform h working opts pkg = (logs, Inr (h', a)) \<Longrightarrow> prefix h h'"
  by (auto simp: default_transform_def)

lemma store_write_log: "store (extern (write_log l w)) = store (extern w)"
  by (simp add: write_log_def)

text \<open>
  A task whose parser and whose transform hook only create objects leaves every object
  that exists as it is, whatever its outcome.
\<close>

lemma prefix_createScaffoldTask:
  assumes d: "allocates_only (deserialize hks)"
    and t: "\<And>h a logs h' b.
              transform_hook hks h a opts pkg0 = (logs, Inr (h', b)) \<Longrightarrow> prefix h h'"
    and pkg0: "pkg0 = read_package env (packageJson opts)
                 (case cwd opts of None \<Rightarrow> process_cwd env | Some d \<Rightarrow> d) (disk (extern w))"
  shows "prefix (store (extern w))
           (store (extern (snd (createScaffoldTask env fileName base label hks opts w))))"
proof -
  define h where "h = store (extern w)"
  define start where "start = (case disk (extern w)
        (case dest opts of
           None \<Rightarrow> path_join env
                     (case cwd opts of None \<Rightarrow> process_cwd env | Some d \<Rightarrow> d) fileName
         | Some d \<Rightarrow> d) of
                     None \<Rightarrow> shallow_copy h base
                   | Some existing \<Rightarrow>
                       if flag (overwrite opts) then shallow_copy h base
                       else deserialize hks h existing)"
  have s: "prefix h h1" if "start = Inr (h1, working)" for h1 working
    using that d unfolding start_def allocates_only_def
    by (auto split: option.splits if_splits dest: prefix_shallow_copy)
  show ?thesis
  proof (cases start)
    case (Inl e)
    then show ?thesis
      unfolding createScaffoldTask_def Let_def start_def h_def by simp
  next
    case (Inr r)
    obtain h1 working where r: "r = (h1, working)" by (cases r)
    have p1: "prefix h h1" using s Inr r by simp
    obtain logs res where tr: "transform_hook hks h1 working opts pkg0 = (logs, res)"
      by (cases "transform_hook hks h1 working opts pkg0")
    show ?thesis
    proof (cases res)
      case (Inl e)
      with Inr r tr p1 show ?thesis
        unfolding createScaffoldTask_def Let_def start_def [symmetric, unfolded h_def [symmetric]]
          h_def [symmetric] pkg0 [symmetric]
        by simp
    next
      case (Inr q)
      obtain h2 final where q: "q = (h2, final)" by (cases q)
      from t tr Inr q have "prefix h1 h2" by blast
      with p1 have p2: "prefix h h2" by (rule prefix_order.trans)
      from \<open>start = Inr r\<close> r tr Inr q p2 show ?thesis
        unfolding createScaffoldTask_def Let_def start_def [symmetric, unfolded h_def [symmetric]]
          h_def [symmetric] pkg0 [symmetric]
        by (simp add: store_write_log split: sum.splits)
    qed
  qed
qed

text \<open>A sequence of actions that each keep the objects that exist keeps them.\<close>

lemma prefix_run_steps:
  assumes "\<And>a w. a \<in> set as \<Longrightarrow> prefix (store (extern w)) (store (extern (snd (a w))))"
  shows "prefix (store (extern w)) (store (extern (snd (run_steps as w))))"
  using assms
proof (induction as arbitrary: w)
  case Nil
  then show ?case by simp
next
  case (Cons a as)
  have 1: "prefix (store (extern w)) (store (extern (snd (a w))))"
    using Cons.prems by simp
  show ?case
  proof (cases "a w")
    case (Pair r w1)
    show ?thesis
    proof (cases r)
      case (Inl e)
      with Pair 1 show ?thesis by simp
    next
      case (Inr u)
      have "prefix (store (extern w1)) (store (extern (snd (run_steps as w1))))"
        using Cons.IH Cons.prems by simp
      with 1 Pair have "prefix (store (extern w)) (store (extern (snd (run_steps as w1))))"
        by (auto intro: prefix_order.trans)
      with Pair Inr show ?thesis by simp
    qed
  qed
qed

text \<open>
  Claim C6.  Let the JSON and YAML parsers only create objects.  Then after any invocation
  of the tsconfig, typedoc or mkdocs task, with any outcome, the store begins with the
  store before it: every object that existed, the three frozen templates and the arrays
  and objects inside them among them, is there at its address with the properties and
  the mark it had.  The same holds of the mkdocs transform on its own, applied to any
  object of any store, the template itself included.  A run that follows therefore finds
  the templates as the first run found them.
\<close>

theorem templates_never_mutated:
  assumes "allocates_only (json_parse env)" and "allocates_only (yaml_parse env)"
  shows "prefix (store (extern w)) (store (extern (snd (scaffold_tsconfig env t o1 w))))
       \<and> prefix (store (extern w)) (store (extern (snd (scaffold_typedoc env t o2 w))))
       \<and> prefix (store (extern w)) (store (extern (snd (scaffold_mkdocs env t o3 w))))
       \<and> prefix h (case snd (transform_object p h content o3 pkg) of
                     Inl e \<Rightarrow> h
                   | Inr (h', a) \<Rightarrow> h')"
proof (intro conjI)
  show "prefix (store (extern w)) (store (extern (snd (scaffold_tsconfig env t o1 w))))"
    unfolding scaffold_tsconfig_def
    by (rule prefix_createScaffoldTask [OF _ _ refl])
       (simp_all add: assms(1) prefix_default_transform)
  show "prefix (store (extern w)) (store (extern (snd (scaffold_typedoc env t o2 w))))"
    unfolding scaffold_typedoc_def
    by (rule prefix_createScaffoldTask [OF _ _ refl])
       (simp_all add: assms(1) prefix_default_transform)
  show "prefix (store (extern w)) (store (extern (snd (scaffold_mkdocs env t o3 w))))"
    unfolding scaffold_mkdocs_def
    by (rule prefix_createScaffoldTask [OF _ _ refl])
       (simp_all add: assms(2) prefix_transform_object)
  show "prefix h (case snd (transform_object p h content o3 pkg) of
                     Inl e \<Rightarrow> h
                   | Inr (h', a) \<Rightarrow> h')"
    by (cases "transform_object p h content o3 pkg")
       (auto split: sum.splits dest: prefix_transform_object)
qed

lemma allocates_only_example_parse: "allocates_only example_parse"
  by (auto simp: allocates_only_def example_parse_def object_literal_def split: if_splits)

text \<open>The store after the module is loaded: seven objects, the templates frozen.\<close>

lemma loaded_store:
  "fst (load_module []) ! 0 = \<lparr>properties = BASE_MKDOCS_YML, frozen = True\<rparr>"
  "length (fst (load_module [])) = 7"
  "snd (load_module []) = \<lparr>mkdocs_template = 0, typedoc_template = 3, tsconfig_template = 6\<rparr>"
  "frozen (fst (load_module []) ! 3)"
  "frozen (fst (load_module []) ! 6)"
  by (simp_all add: load_module_def object_literal_def freeze_def Let_def)

text \<open>
  The \<^verbatim>\<open>copyright\<close> option through the mkdocs task: \<^verbatim>\<open>init\<close> passes it on, and the
  task does the same with and without it.
\<close>

lemma mkdocs_options_copyright:
  "mkdocs_options (opts\<lparr>init_copyright := c\<rparr>) = (mkdocs_options opts)\<lparr>copyright := c\<rparr>"
  by (simp add: mkdocs_options_def)

lemma transform_object_copyright:
  "transform_object p h content (opts\<lparr>copyright := c\<rparr>) pkg =
   transform_object p h content opts pkg"
  unfolding transform_object_def transform_copyright ..

lemma scaffold_mkdocs_copyright:
  "scaffold_mkdocs env t (opts\<lparr>copyright := c\<rparr>) w = scaffold_mkdocs env t opts w"
proof -
  have s: "cwd (opts\<lparr>copyright := c\<rparr>) = cwd opts" "dest (opts\<lparr>copyright := c\<rparr>) = dest opts"
    "packageJson (opts\<lparr>copyright := c\<rparr>) = packageJson opts"
    "overwrite (opts\<lparr>copyright := c\<rparr>) = overwrite opts"
    "dryRun (opts\<lparr>copyright := c\<rparr>) = dryRun opts"
    by simp_all
  have h: "transform_hook \<lparr>deserialize = yaml_parse env, serialize = stringifyYaml env,
        transform_hook = transform_object (url_pathname env)\<rparr>
      = transform_object (url_pathname env)"
    by simp
  show ?thesis
    unfolding scaffold_mkdocs_def createScaffoldTask_def s h transform_object_copyright ..
qed

lemma set_property_frozen:
  "a < length h \<Longrightarrow> frozen (h ! a) \<Longrightarrow>
   set_property h a k v = Inl (TypeError ''Cannot assign to property of a frozen object'')"
  by (simp add: set_property_def)

lemma base_run:
  "transform http_pathname BASE_MKDOCS_YML example_options example_package =
     ([LogLine ''init'' Info ''Using repo name from package.json: %s'' [''owner/repo''],
       LogLine ''init'' Info ''Using site description URL from package.json: %s''
         [''About pkg'']],
      Inr (BASE_MKDOCS_YML(''site_name'' \<mapsto> JStr ''My Docs'',
             ''repo_url'' \<mapsto> JStr ''https://github.com/owner/repo.git'',
             ''repo_name'' \<mapsto> JStr ''owner/repo'',
             ''site_description'' \<mapsto> JStr ''About pkg'')))"
  by (simp add: transform_eval example_options_def example_package_def)

text \<open>
  The mkdocs task on the loaded world: the copy of the template and the object the
  transform returns are added to the store.
\<close>

lemma loaded_run:
  "store (extern (snd (scaffold_mkdocs example_host (snd (load_module [])) example_options
                         loaded_world))) =
     fst (load_module [])
     @ [\<lparr>properties = BASE_MKDOCS_YML, frozen = False\<rparr>,
        \<lparr>properties = BASE_MKDOCS_YML(''site_name'' \<mapsto> JStr ''My Docs'',
             ''repo_url'' \<mapsto> JStr ''https://github.com/owner/repo.git'',
             ''repo_name'' \<mapsto> JStr ''owner/repo'',
             ''site_description'' \<mapsto> JStr ''About pkg''), frozen = False\<rparr>]"
proof -
  have o: "dest example_options = None" "cwd example_options = None"
    "overwrite example_options = None" "dryRun example_options = None"
    by (simp_all add: example_options_def no_options_def)
  have c: "shallow_copy (fst (load_module [])) 0 =
      Inr (fst (load_module []) @ [\<lparr>properties = BASE_MKDOCS_YML, frozen = False\<rparr>], 7)"
    by (simp add: shallow_copy_def object_literal_def loaded_store)
  have t: "transform_object http_pathname
        (fst (load_module []) @ [\<lparr>properties = BASE_MKDOCS_YML, frozen = False\<rparr>]) 7
        example_options example_package =
      ([LogLine ''init'' Info ''Using repo name from package.json: %s'' [''owner/repo''],
        LogLine ''init'' Info ''Using site description URL from package.json: %s''
          [''About pkg'']],
       Inr ((fst (load_module []) @ [\<lparr>properties = BASE_MKDOCS_YML, frozen = False\<rparr>])
            @ [\<lparr>properties = BASE_MKDOCS_YML(''site_name'' \<mapsto> JStr ''My Docs'',
                 ''repo_url'' \<mapsto> JStr ''https://github.com/owner/repo.git'',
                 ''repo_name'' \<mapsto> JStr ''owner/repo'',
                 ''site_description'' \<mapsto> JStr ''About pkg''), frozen = False\<rparr>], 8))"
    by (simp add: transform_object_def object_literal_def loaded_store nth_append base_run)
  show ?thesis
    by (simp add: scaffold_mkdocs_def createScaffoldTask_def Let_def loaded_world_def
        loaded_store(3) example_host_def o c t flag_def write_log_def)
qed

theorem templates_never_mutated_witness:
  "allocates_only (json_parse example_host) \<and> allocates_only (yaml_parse example_host)
   \<and> store (extern (snd (scaffold_mkdocs example_host (snd (load_module [])) example_options
                         loaded_world))) ! mkdocs_template (snd (load_module []))
       = \<lparr>properties = BASE_MKDOCS_YML, frozen = True\<rparr>
   \<and> length (store (extern (snd (scaffold_mkdocs example_host (snd (load_module []))
                                 example_options loaded_world)))) = 9"
proof -
  have a: "allocates_only (json_parse example_host)"
    and b: "allocates_only (yaml_parse example_host)"
    by (simp_all add: example_host_def allocates_only_example_parse)
  have "prefix (store (extern loaded_world))
          (store (extern (snd (scaffold_mkdocs example_host (snd (load_module []))
                                 example_options loaded_world))))"
    using templates_never_mutated [OF a b] by blast
  then have "store (extern (snd (scaffold_mkdocs example_host (snd (load_module []))
                 example_options loaded_world))) ! 0 = store (extern loaded_world) ! 0"
    by (rule prefix_nth) (simp add: loaded_world_def loaded_store)
  then have c: "store (extern (snd (scaffold_mkdocs example_host (snd (load_module []))
                 example_options loaded_world))) ! mkdocs_template (snd (load_module []))
       = \<lparr>properties = BASE_MKDOCS_YML, frozen = True\<rparr>"
    by (simp add: loaded_world_def loaded_store)
  have d: "length (store (extern (snd (scaffold_mkdocs example_host (snd (load_module []))
                                 example_options loaded_world)))) = 9"
    unfolding loaded_run by (simp add: loaded_store)
  from a b c d show ?thesis by simp
qed

end
